theory Spec2Isabelle
  imports Complex_Main "HOL-Library.Word"
begin

section \<open>EchoVerse: the audiobook tool (main.py) and the story generator (title.py)\<close>

text \<open>
  Both programs are UI event handlers around two blocking remote calls. The remote
  services are not part of the repository, so they enter the model as a \<open>world\<close>: for
  each call it says whether the call raises or what it returns. Everything the code
  does with those answers (guards, prompt construction, error handling, the history
  list) is translated from the source. What a function shows to the user or sends over
  the network is recorded as a list of events, in program order.
\<close>

subsection \<open>Python values\<close>

text \<open>
  A Python \<open>str\<close> is a sequence of Unicode code points, so it is a list of naturals here
  (Isabelle's \<open>char\<close> has 8 bits only). \<open>ustr\<close> embeds an ASCII literal. \<open>bytes\<close> is a
  list of 8-bit words.
\<close>

type_synonym pystr = "nat list"

type_synonym bytes = "8 word list"

definition ustr :: "string \<Rightarrow> pystr" where
  "ustr s = map of_char s"

text \<open>Truthiness of a value that is \<open>None\<close> or a \<open>str\<close> / \<open>bytes\<close>: \<open>if x:\<close>.\<close>

fun truthy :: "'a list option \<Rightarrow> bool" where
  "truthy None = False"
| "truthy (Some s) = (s \<noteq> [])"

text \<open>
  Exceptions. \<open>except Exception\<close> catches every class derived from \<open>Exception\<close>;
  \<open>BaseException\<close> stands for the classes outside it (Streamlit's \<open>StopException\<close>,
  \<open>KeyboardInterrupt\<close>). \<open>AttributeError\<close> is kept apart because \<open>hasattr\<close> in
  title.py turns exactly that class into \<open>False\<close>. The argument is \<open>str(e)\<close>.
\<close>

datatype exn = Exception pystr | AttributeError pystr | BaseException pystr

fun is_Exception :: "exn \<Rightarrow> bool" where
  "is_Exception (Exception m) = True"
| "is_Exception (AttributeError m) = True"
| "is_Exception (BaseException m) = False"

fun str_exn :: "exn \<Rightarrow> pystr" where
  "str_exn (Exception m) = m"
| "str_exn (AttributeError m) = m"
| "str_exn (BaseException m) = m"

text \<open>\<open>str(n)\<close> for an \<open>int\<close>, as the f-string of the status code formats it.\<close>

function str_nat :: "nat \<Rightarrow> pystr" where
  "str_nat n = (if n < 10 then [48 + n] else str_nat (n div 10) @ [48 + n mod 10])"
  by pat_completeness auto
termination
  by (relation "measure (\<lambda>n. n)") auto

declare str_nat.simps [simp del]

definition str_int :: "int \<Rightarrow> pystr" where
  "str_int i = (if i < 0 then 45 # str_nat (nat (- i)) else str_nat (nat i))"

text \<open>
  \<open>str.strip()\<close> without argument removes leading and trailing characters for which
  \<open>str.isspace\<close> holds; the list is CPython's table of whitespace code points.
\<close>

definition py_isspace :: "nat \<Rightarrow> bool" where
  "py_isspace c \<longleftrightarrow>
     (0x09 \<le> c \<and> c \<le> 0x0D) \<or> (0x1C \<le> c \<and> c \<le> 0x20) \<or> c = 0x85 \<or> c = 0xA0 \<or>
     c = 0x1680 \<or> (0x2000 \<le> c \<and> c \<le> 0x200A) \<or> c = 0x2028 \<or> c = 0x2029 \<or>
     c = 0x202F \<or> c = 0x205F \<or> c = 0x3000"

definition py_strip :: "pystr \<Rightarrow> pystr" where
  "py_strip s = rev (dropWhile py_isspace (rev (dropWhile py_isspace s)))"

subsection \<open>The remote services and the events of a run\<close>

datatype json_value = JString pystr | JNumber rat | JObject "(pystr \<times> json_value) list"

text \<open>The arguments of \<open>requests.post(tts_url, json=data, headers=headers)\<close>.\<close>

record request =
  url :: pystr
  json :: json_value
  headers :: "(pystr \<times> pystr) list"

record response =
  status_code :: int
  resp_text :: pystr
  resp_content :: bytes

text \<open>
  The object \<open>generate_content\<close> returns: reading its \<open>text\<close> property gives the text
  or raises (the SDK raises when the candidate was blocked or is empty).
\<close>

datatype gen_response = GenerateContentResponse "exn + pystr"

fun response_text :: "gen_response \<Rightarrow> exn + pystr" where
  "response_text (GenerateContentResponse t) = t"

record generation_config =
  temperature :: rat
  top_p :: rat
  max_output_tokens :: int

record world =
  generate_content :: "pystr \<Rightarrow> pystr \<Rightarrow> generation_config option \<Rightarrow> exn + gen_response"
  requests_post :: "request \<Rightarrow> exn + response"

datatype event =
    GenerateContent pystr pystr "generation_config option"
  | RequestsPost request
  | StError pystr
  | StWarning pystr
  | StSuccess pystr
  | Print pystr
  | AppLaunch

text \<open>A computation: the events it produced, then the exception it raised or its value.\<close>

type_synonym 'a io = "event list \<times> (exn + 'a)"

subsection \<open>main.py: configuration at script start\<close>

text \<open>\<open>st.stop()\<close> ends the script run by raising \<open>StopException\<close>, a \<open>BaseException\<close>.\<close>

definition st_stop :: exn where
  "st_stop = BaseException (ustr ''StopException'')"

text \<open>
  \<open>configure_apis\<close>: the two \<open>os.getenv\<close> results (\<open>None\<close> when the variable is unset) and
  the outcome of \<open>genai.configure\<close> are the inputs.
\<close>

definition configure_apis :: "pystr option \<Rightarrow> pystr option \<Rightarrow> exn + unit \<Rightarrow> pystr io" where
  "configure_apis google_api_key elevenlabs_api_key configure =
     (if \<not> truthy google_api_key then
        ([StError (ustr ''Google AI API Key is missing. Please check your .env file.'')],
         Inl st_stop)
      else if \<not> truthy elevenlabs_api_key then
        ([StError (ustr ''ElevenLabs API Key is missing. Please check your .env file.'')],
         Inl st_stop)
      else
        (case configure of
           Inl e \<Rightarrow>
             if is_Exception e then
               ([StError (ustr ''Failed to configure Google Gemini API: '' @ str_exn e)],
                Inl st_stop)
             else ([], Inl e)
         | Inr _ \<Rightarrow> ([], Inr (the elevenlabs_api_key))))"

text \<open>
  The module-level \<open>try: ELEVENLABS_API_KEY = configure_apis() except Exception: st.stop()\<close>.
\<close>

definition main_startup :: "pystr option \<Rightarrow> pystr option \<Rightarrow> exn + unit \<Rightarrow> pystr io" where
  "main_startup google_api_key elevenlabs_api_key configure =
     (case configure_apis google_api_key elevenlabs_api_key configure of
        (ev, Inl e) \<Rightarrow> if is_Exception e then (ev, Inl st_stop) else (ev, Inl e)
      | (ev, Inr key) \<Rightarrow> (ev, Inr key))"

text \<open>
  The rest of the script runs only when the start returned the key: an exception ends
  the run there. \<open>rest\<close> is everything below line 38 of main.py.
\<close>

definition main_script ::
  "pystr option \<Rightarrow> pystr option \<Rightarrow> exn + unit \<Rightarrow> (pystr \<Rightarrow> 'a io) \<Rightarrow> 'a io" where
  "main_script google_api_key elevenlabs_api_key configure rest =
     (case main_startup google_api_key elevenlabs_api_key configure of
        (ev, Inl e) \<Rightarrow> (ev, Inl e)
      | (ev, Inr key) \<Rightarrow> (case rest key of (ev', r) \<Rightarrow> (ev @ ev', r)))"

subsection \<open>main.py: the rewrite call\<close>

definition MODEL_NAME :: pystr where
  "MODEL_NAME = ustr ''gemini-1.5-flash-latest''"

definition rewrite_prompt :: "pystr \<Rightarrow> pystr \<Rightarrow> pystr" where
  "rewrite_prompt text_to_rewrite tone =
     ustr ''You are a master storyteller. Rewrite the following text in a '' @ [0x27] @ tone @
     [0x27] @ ustr '' tone, preserving the original meaning but enhancing the style. Return only the rewritten text.'' @
     [0x0A] @ ustr ''    ORIGINAL TEXT: '' @ [0x22] @ text_to_rewrite @ [0x22] @
     [0x0A] @ ustr ''    REWRITTEN TEXT:''"

definition rewrite_text_with_llm :: "world \<Rightarrow> pystr \<Rightarrow> pystr \<Rightarrow> pystr option io" where
  "rewrite_text_with_llm w text_to_rewrite tone =
     (if text_to_rewrite = [] then ([], Inr (Some []))
      else
        let prompt = rewrite_prompt text_to_rewrite tone;
            call = GenerateContent MODEL_NAME prompt None;
            handler = (\<lambda>e.
              if is_Exception e then
                ([call, StError (ustr ''Error rewriting text with Gemini: '' @ str_exn e)],
                 Inr None)
              else ([call], Inl e))
        in case generate_content w MODEL_NAME prompt None of
             Inl e \<Rightarrow> handler e
           | Inr response \<Rightarrow>
               (case response_text response of
                  Inl e \<Rightarrow> handler e
                | Inr t \<Rightarrow> ([call], Inr (Some (py_strip t)))))"

subsection \<open>main.py: the speech synthesis call\<close>

definition tts_url :: "pystr \<Rightarrow> pystr" where
  "tts_url voice_id = ustr ''https://api.elevenlabs.io/v1/text-to-speech/'' @ voice_id"

definition tts_headers :: "pystr \<Rightarrow> (pystr \<times> pystr) list" where
  "tts_headers api_key =
     [(ustr ''Accept'', ustr ''audio/mpeg''),
      (ustr ''Content-Type'', ustr ''application/json''),
      (ustr ''xi-api-key'', api_key)]"

definition tts_data :: "pystr \<Rightarrow> json_value" where
  "tts_data text_to_speak =
     JObject
       [(ustr ''text'', JString text_to_speak),
        (ustr ''model_id'', JString (ustr ''eleven_multilingual_v2'')),
        (ustr ''voice_settings'',
           JObject [(ustr ''stability'', JNumber 0.5), (ustr ''similarity_boost'', JNumber 0.75)])]"

definition tts_request :: "pystr \<Rightarrow> pystr \<Rightarrow> pystr \<Rightarrow> request" where
  "tts_request api_key text_to_speak voice_id =
     \<lparr>url = tts_url voice_id, json = tts_data text_to_speak, headers = tts_headers api_key\<rparr>"

definition convert_text_to_speech ::
  "world \<Rightarrow> pystr \<Rightarrow> pystr option \<Rightarrow> pystr option \<Rightarrow> bytes option io" where
  "convert_text_to_speech w api_key text_to_speak voice_id =
     (if \<not> truthy text_to_speak \<or> \<not> truthy voice_id then ([], Inr None)
      else
        let req = tts_request api_key (the text_to_speak) (the voice_id)
        in case requests_post w req of
             Inr response \<Rightarrow>
               if status_code response = 200 then
                 ([RequestsPost req], Inr (Some (resp_content response)))
               else
                 ([RequestsPost req,
                   StError (ustr ''ElevenLabs API Error: '' @ str_int (status_code response) @
                            ustr '' - '' @ resp_text response)],
                  Inr None)
           | Inl e \<Rightarrow>
               if is_Exception e then
                 ([RequestsPost req,
                   StError (ustr ''An error occurred while calling the ElevenLabs API: '' @
                            str_exn e)],
                  Inr None)
               else ([RequestsPost req], Inl e))"

subsection \<open>main.py: the history list and the generate button\<close>

record entry =
  original_text :: pystr
  rewritten_text :: pystr
  tone :: pystr
  voice_name :: pystr
  audio_data :: bytes

text \<open>\<open>if 'history' not in st.session_state: st.session_state.history = []\<close>\<close>

fun init_history :: "entry list option \<Rightarrow> entry list" where
  "init_history None = []"
| "init_history (Some h) = h"

text \<open>The widget values of one script run, as the handler reads them.\<close>

record ui_input =
  clicked :: bool
  input_text :: pystr
  selected_tone :: pystr
  selected_voice_name :: pystr
  selected_voice_id :: pystr

definition TONES :: "pystr list" where
  "TONES = [ustr ''Neutral'', ustr ''Suspenseful'', ustr ''Inspiring'', ustr ''Professional'',
            ustr ''Poetic'']"

text \<open>
  The body of \<open>if st.button("Generate Audiobook", ...)\<close>. It returns the events, the
  history list after the run and whether the run ended by an exception.
  The success message starts with the code point U+2705. The record fields carry the
  names of the dictionary keys, so the script's variables \<open>original_text\<close>,
  \<open>rewritten_text\<close> and \<open>audio_data\<close> are \<open>input_text inp\<close>, \<open>rewritten\<close> and \<open>audio\<close>
  here. The spinner and the layout widgets around the calls have no part in what the
  handler decides and are left out.
\<close>

definition generate_audiobook ::
  "world \<Rightarrow> pystr \<Rightarrow> ui_input \<Rightarrow> entry list \<Rightarrow> event list \<times> entry list \<times> (exn + unit)" where
  "generate_audiobook w api_key inp history =
     (if input_text inp \<noteq> [] \<and> selected_voice_id inp \<noteq> [] then
        (case rewrite_text_with_llm w (input_text inp) (selected_tone inp) of
           (ev1, Inl e) \<Rightarrow> (ev1, history, Inl e)
         | (ev1, Inr rewritten) \<Rightarrow>
             if truthy rewritten then
               (case convert_text_to_speech w api_key rewritten (Some (selected_voice_id inp)) of
                  (ev2, Inl e) \<Rightarrow> (ev1 @ ev2, history, Inl e)
                | (ev2, Inr audio) \<Rightarrow>
                    if truthy audio then
                      (ev1 @ ev2 @ [StSuccess (0x2705 # ustr '' Audiobook generated successfully!'')],
                       \<lparr>original_text = input_text inp, rewritten_text = the rewritten,
                        tone = selected_tone inp, voice_name = selected_voice_name inp,
                        audio_data = the audio\<rparr> # history,
                       Inr ())
                    else (ev1 @ ev2, history, Inr ()))
             else (ev1, history, Inr ()))
      else ([StWarning (ustr ''Please provide text to continue.'')], history, Inr ()))"

definition button_run ::
  "world \<Rightarrow> pystr \<Rightarrow> ui_input \<Rightarrow> entry list \<Rightarrow> event list \<times> entry list \<times> (exn + unit)" where
  "button_run w api_key inp history =
     (if clicked inp then generate_audiobook w api_key inp history else ([], history, Inr ()))"

text \<open>
  A session: the script runs once per user action, each run with the widget values and
  the remote answers of that moment; the history list is carried from run to run.
\<close>

fun session :: "pystr \<Rightarrow> entry list \<Rightarrow> (world \<times> ui_input) list \<Rightarrow> entry list" where
  "session api_key history [] = history"
| "session api_key history ((w, inp) # runs) =
     session api_key (fst (snd (button_run w api_key inp history))) runs"

subsection \<open>title.py\<close>

text \<open>
  Module level: \<open>genai.configure\<close> inside \<open>try\<close>, a \<open>print\<close> on failure, then the UI is
  built and \<open>app.launch()\<close> runs. \<open>GOOGLE_API_KEY\<close> is the module constant the user is
  asked to fill in; it is a parameter here.
\<close>

definition title_startup :: "pystr \<Rightarrow> exn + unit \<Rightarrow> unit io" where
  "title_startup GOOGLE_API_KEY configure =
     (case configure of
        Inl e \<Rightarrow>
          if is_Exception e then
            ([Print (ustr ''Error configuring Google AI: '' @ str_exn e), AppLaunch], Inr ())
          else ([], Inl e)
      | Inr _ \<Rightarrow> ([AppLaunch], Inr ()))"

definition missing_key_message :: pystr where
  "missing_key_message =
     ustr ''--- '' @ [0x0A] @
     ustr ''**Error: Google AI API key is missing!**'' @ [0x0A, 0x0A] @
     ustr ''1. Get a free API key from https://aistudio.google.com/app/apikey'' @ [0x0A] @
     ustr ''2. Paste it into the `GOOGLE_API_KEY` variable in the code.'' @ [0x0A] @
     ustr ''3. Restart the application.'' @
     [0x0A] @ ustr ''---''"

definition full_prompt :: "pystr \<Rightarrow> pystr" where
  "full_prompt prompt_text =
     ustr ''You are a master storyteller. Your task is to write a short, compelling, and creative fictional story based on the user'' @
     [0x27] @ ustr ''s idea. The story should have a clear beginning, middle, and end.'' @
     [0x0A, 0x0A] @ ustr ''**User'' @ [0x27] @ ustr ''s Idea:** '' @ [0x22] @ prompt_text @ [0x22] @
     [0x0A, 0x0A] @ ustr ''**Your Story:**'' @ [0x0A]"

definition story_config :: generation_config where
  "story_config = \<lparr>temperature = 0.8, top_p = 0.95, max_output_tokens = 1024\<rparr>"

definition invalid_story_message :: pystr where
  "invalid_story_message =
     ustr ''Error: The model did not return a valid story. This might be due to the safety filter or an internal issue. Please try a different prompt.''"

text \<open>
  \<open>generate_fictional_story\<close>: \<open>hasattr(response, 'text')\<close> reads the property; it is
  \<open>False\<close> on \<open>AttributeError\<close> and lets every other exception through to the
  \<open>except Exception\<close> around it. The response object itself is always truthy.
\<close>

definition generate_fictional_story :: "world \<Rightarrow> pystr \<Rightarrow> pystr \<Rightarrow> pystr io" where
  "generate_fictional_story w GOOGLE_API_KEY prompt_text =
     (if GOOGLE_API_KEY = [] then ([], Inr missing_key_message)
      else
        let call = GenerateContent MODEL_NAME (full_prompt prompt_text) (Some story_config);
            handler = (\<lambda>e.
              if is_Exception e then
                ([call],
                 Inr (ustr ''An unexpected error occurred with the Google AI API: '' @ str_exn e))
              else ([call], Inl e))
        in case generate_content w MODEL_NAME (full_prompt prompt_text) (Some story_config) of
             Inl e \<Rightarrow> handler e
           | Inr response \<Rightarrow>
               (case response_text response of
                  Inl (AttributeError m) \<Rightarrow> ([call], Inr invalid_story_message)
                | Inl e \<Rightarrow> handler e
                | Inr t \<Rightarrow> ([call], Inr (py_strip t))))"

subsection \<open>The properties in terms of one generation\<close>

text \<open>
  A generation is successful when the handler reaches \<open>st.success\<close>. The record that
  belongs to a generation holds the widget values of that run, the text the rewrite
  call returned for them and the audio the synthesis call returned for that text.
\<close>

fun is_success :: "event \<Rightarrow> bool" where
  "is_success (StSuccess m) = True"
| "is_success e = False"

fun is_post :: "event \<Rightarrow> bool" where
  "is_post (RequestsPost r) = True"
| "is_post e = False"

fun is_model_call :: "event \<Rightarrow> bool" where
  "is_model_call (GenerateContent m p c) = True"
| "is_model_call e = False"

definition successful :: "pystr \<Rightarrow> world \<times> ui_input \<Rightarrow> bool" where
  "successful api_key run =
     (case run of (w, inp) \<Rightarrow>
        clicked inp \<and> list_ex is_success (fst (generate_audiobook w api_key inp [])))"

definition narration_of :: "pystr \<Rightarrow> world \<times> ui_input \<Rightarrow> entry" where
  "narration_of api_key run =
     (case run of (w, inp) \<Rightarrow>
        let rewritten =
              (case snd (rewrite_text_with_llm w (input_text inp) (selected_tone inp)) of
                 Inr (Some t) \<Rightarrow> t | _ \<Rightarrow> []);
            audio =
              (case snd (convert_text_to_speech w api_key (Some rewritten)
                           (Some (selected_voice_id inp))) of
                 Inr (Some a) \<Rightarrow> a | _ \<Rightarrow> [])
        in \<lparr>original_text = input_text inp, rewritten_text = rewritten,
            tone = selected_tone inp, voice_name = selected_voice_name inp,
            audio_data = audio\<rparr>)"

subsection \<open>Example worlds and inputs\<close>

definition story_reply :: "exn + gen_response" where
  "story_reply = Inr (GenerateContentResponse (Inr (ustr ''  A storm was coming. '')))"

definition audio_reply :: "exn + response" where
  "audio_reply = Inr \<lparr>status_code = 200, resp_text = [], resp_content = [0x49, 0x44, 0x33]\<rparr>"

definition demo_world :: world where
  "demo_world =
     \<lparr>generate_content = (\<lambda>m p c. story_reply), requests_post = (\<lambda>req. audio_reply)\<rparr>"

definition llm_down_world :: world where
  "llm_down_world =
     \<lparr>generate_content = (\<lambda>m p c. Inl (Exception (ustr ''503 Service Unavailable''))),
      requests_post = (\<lambda>req. audio_reply)\<rparr>"

definition tts_denied_world :: world where
  "tts_denied_world =
     \<lparr>generate_content = (\<lambda>m p c. story_reply),
      requests_post = (\<lambda>req.
        Inr \<lparr>status_code = 401, resp_text = ustr ''Unauthorized'', resp_content = []\<rparr>)\<rparr>"

definition tts_unreachable_world :: world where
  "tts_unreachable_world =
     \<lparr>generate_content = (\<lambda>m p c. story_reply),
      requests_post = (\<lambda>req. Inl (Exception (ustr ''Connection refused'')))\<rparr>"

definition demo_input :: ui_input where
  "demo_input =
     \<lparr>clicked = True, input_text = ustr ''The sky grew dark.'',
      selected_tone = ustr ''Suspenseful'', selected_voice_name = ustr ''Rachel'',
      selected_voice_id = ustr ''21m00''\<rparr>"

definition dawn_input :: ui_input where
  "dawn_input =
     \<lparr>clicked = True, input_text = ustr ''Dawn broke.'',
      selected_tone = ustr ''Poetic'', selected_voice_name = ustr ''Adam'',
      selected_voice_id = ustr ''pNInz6''\<rparr>"

definition demo_runs :: "(world \<times> ui_input) list" where
  "demo_runs = [(demo_world, demo_input), (llm_down_world, demo_input), (demo_world, dawn_input)]"

text \<open>
  The exception a model call ends with, raised by \<open>generate_content\<close> itself or by reading
  the \<open>text\<close> of what it returned; \<open>None\<close> when the call gives a text.
\<close>

definition model_failure ::
  "world \<Rightarrow> pystr \<Rightarrow> pystr \<Rightarrow> generation_config option \<Rightarrow> exn option" where
  "model_failure w model prompt config =
     (case generate_content w model prompt config of
        Inl e \<Rightarrow> Some e
      | Inr response \<Rightarrow> (case response_text response of Inl e \<Rightarrow> Some e | Inr t \<Rightarrow> None))"

section \<open>Properties\<close>

subsection \<open>Shared lemmas\<close>

lemma rewrite_events_no_post:
  "\<not> list_ex is_post (fst (rewrite_text_with_llm w t tn))"
  by (auto simp add: rewrite_text_with_llm_def Let_def split: sum.splits)

lemma rewrite_events_no_success:
  "\<not> list_ex is_success (fst (rewrite_text_with_llm w t tn))"
  by (auto simp add: rewrite_text_with_llm_def Let_def split: sum.splits)

text \<open>
  What \<open>py_strip\<close> returns is the argument without a prefix and a suffix that consist of
  whitespace only, and it neither starts nor ends with whitespace.
\<close>

lemma py_strip_spec:
  "\<exists>a b. t = a @ py_strip t @ b \<and> list_all py_isspace a \<and> list_all py_isspace b \<and>
     (py_strip t \<noteq> [] \<longrightarrow> \<not> py_isspace (hd (py_strip t)) \<and> \<not> py_isspace (last (py_strip t)))"
proof -
  define a where "a = takeWhile py_isspace t"
  define d where "d = dropWhile py_isspace t"
  define b where "b = rev (takeWhile py_isspace (rev d))"
  have r: "py_strip t = rev (dropWhile py_isspace (rev d))"
    by (simp add: py_strip_def d_def)
  have td: "t = a @ d" by (simp add: a_def d_def)
  have "rev (dropWhile py_isspace (rev d)) @ rev (takeWhile py_isspace (rev d)) =
        rev (takeWhile py_isspace (rev d) @ dropWhile py_isspace (rev d))"
    by (simp only: rev_append)
  also have "\<dots> = d" by (simp only: takeWhile_dropWhile_id rev_rev_ident)
  finally have dd: "d = py_strip t @ b" by (simp add: r b_def)
  have wa: "list_all py_isspace a"
    by (simp add: a_def list_all_iff) (meson set_takeWhileD)
  have wb: "list_all py_isspace b"
    by (simp add: b_def list_all_iff) (meson set_takeWhileD)
  have ends: "\<not> py_isspace (hd (py_strip t)) \<and> \<not> py_isspace (last (py_strip t))"
    if ne: "py_strip t \<noteq> []"
  proof -
    from ne have dne: "d \<noteq> []" using dd by auto
    then have "\<not> py_isspace (hd d)" unfolding d_def by (rule hd_dropWhile)
    moreover have "hd d = hd (py_strip t)" using dd ne by (metis hd_append2)
    moreover have "dropWhile py_isspace (rev d) \<noteq> []" using ne r by simp
    then have "\<not> py_isspace (hd (dropWhile py_isspace (rev d)))" by (rule hd_dropWhile)
    moreover have "last (py_strip t) = hd (dropWhile py_isspace (rev d))"
      using ne r by (simp add: last_rev)
    ultimately show ?thesis by simp
  qed
  show ?thesis using td dd wa wb ends by (intro exI[of _ a] exI[of _ b]) auto
qed

text \<open>
  One run changes the history list in one way only: a successful generation puts its
  record in front. A session therefore holds the records of its successful generations,
  latest first, in front of what the list held before.
\<close>

lemma convert_events_no_success:
  "\<not> list_ex is_success (fst (convert_text_to_speech w k t v))"
  by (auto simp add: convert_text_to_speech_def Let_def split: sum.splits)

lemma generate_audiobook_history:
  "fst (snd (generate_audiobook w k inp h)) =
     (if list_ex is_success (fst (generate_audiobook w k inp []))
      then narration_of k (w, inp) # h else h)"
proof (cases "rewrite_text_with_llm w (input_text inp) (selected_tone inp)")
  case (Pair ev1 r)
  note rw = this
  have n1: "\<not> list_ex is_success ev1"
    using rewrite_events_no_success [of w "input_text inp" "selected_tone inp"] rw by simp
  show ?thesis
  proof (cases r)
    case (Inl e)
    then show ?thesis using rw n1 by (simp add: generate_audiobook_def)
  next
    case (Inr rewritten)
    note r = this
    show ?thesis
    proof (cases rewritten)
      case None
      then show ?thesis using rw r n1 by (simp add: generate_audiobook_def)
    next
      case (Some t)
      note t = this
      show ?thesis
      proof (cases "convert_text_to_speech w k (Some t) (Some (selected_voice_id inp))")
        case (Pair ev2 a)
        note cv = this
        have n2: "\<not> list_ex is_success ev2"
          using convert_events_no_success [of w k "Some t" "Some (selected_voice_id inp)"] cv
          by simp
        show ?thesis
        proof (cases a)
          case (Inl e)
          then show ?thesis using rw r t cv n1 n2 by (simp add: generate_audiobook_def)
        next
          case (Inr audio)
          then show ?thesis using rw r t cv n1 n2
            by (cases audio) (simp_all add: generate_audiobook_def narration_of_def)
        qed
      qed
    qed
  qed
qed

lemma button_run_history:
  "fst (snd (button_run w k inp h)) =
     (if successful k (w, inp) then narration_of k (w, inp) # h else h)"
  using generate_audiobook_history [of w k inp h]
  by (simp add: button_run_def successful_def)

lemma session_history:
  "session k h runs = rev (map (narration_of k) (filter (successful k) runs)) @ h"
proof (induction runs arbitrary: h)
  case Nil
  show ?case by simp
next
  case (Cons run runs)
  obtain w inp where run: "run = (w, inp)" by (cases run)
  show ?case
    using Cons.IH [of "fst (snd (button_run w k inp h))"] button_run_history [of w k inp h]
    by (simp add: run)
qed

lemma demo_rewrite:
  "rewrite_text_with_llm demo_world t tn =
     (if t = [] then ([], Inr (Some []))
      else ([GenerateContent MODEL_NAME (rewrite_prompt t tn) None],
            Inr (Some (ustr ''A storm was coming.''))))"
  by (simp add: rewrite_text_with_llm_def demo_world_def story_reply_def Let_def
        py_strip_def py_isspace_def ustr_def)

lemma demo_convert:
  "t \<noteq> [] \<Longrightarrow> v \<noteq> [] \<Longrightarrow>
   convert_text_to_speech demo_world k (Some t) (Some v) =
     ([RequestsPost (tts_request k t v)], Inr (Some [0x49, 0x44, 0x33]))"
  by (simp add: convert_text_to_speech_def demo_world_def audio_reply_def Let_def)

subsection \<open>The audiobook flow when the rewrite fails\<close>

text \<open>
  Claim C1. In the audiobook flow, when the rewrite call produces no text (it returned
  \<open>None\<close> after a caught exception, returned the empty string, or ended the run by an
  exception the handler does not catch), the generate action makes no speech-synthesis
  request and leaves the history list as it was.
\<close>

theorem rewrite_failure_no_synthesis_no_record:
  assumes "\<not> (\<exists>t. t \<noteq> [] \<and>
               snd (rewrite_text_with_llm w (input_text inp) (selected_tone inp)) = Inr (Some t))"
  shows "\<not> list_ex is_post (fst (generate_audiobook w api_key inp history)) \<and>
         fst (snd (generate_audiobook w api_key inp history)) = history"
proof (cases "rewrite_text_with_llm w (input_text inp) (selected_tone inp)")
  case (Pair ev1 r)
  have np: "\<not> list_ex is_post ev1"
    using rewrite_events_no_post [of w "input_text inp" "selected_tone inp"] Pair by simp
  have nt: "\<not> truthy rw" if "r = Inr rw" for rw
    using assms Pair that by (cases rw) auto
  show ?thesis
    using Pair np nt by (cases r) (auto simp add: generate_audiobook_def)
qed

theorem rewrite_failure_no_synthesis_no_record_witness:
  "\<not> (\<exists>t. t \<noteq> [] \<and>
         snd (rewrite_text_with_llm llm_down_world (input_text demo_input) (selected_tone demo_input)) =
           Inr (Some t)) \<and>
   generate_audiobook llm_down_world (ustr ''key'') demo_input [] =
     ([GenerateContent MODEL_NAME (rewrite_prompt (input_text demo_input) (selected_tone demo_input)) None,
       StError (ustr ''Error rewriting text with Gemini: 503 Service Unavailable'')],
      [], Inr ())"
proof -
  have r: "rewrite_text_with_llm llm_down_world (input_text demo_input) (selected_tone demo_input) =
     ([GenerateContent MODEL_NAME (rewrite_prompt (input_text demo_input) (selected_tone demo_input)) None,
       StError (ustr ''Error rewriting text with Gemini: 503 Service Unavailable'')],
      Inr None)"
    by (simp add: rewrite_text_with_llm_def llm_down_world_def demo_input_def Let_def ustr_def)
  have h: "\<not> (\<exists>t. t \<noteq> [] \<and>
         snd (rewrite_text_with_llm llm_down_world (input_text demo_input) (selected_tone demo_input)) =
           Inr (Some t))"
    by (simp add: r)
  have g: "generate_audiobook llm_down_world (ustr ''key'') demo_input [] =
     ([GenerateContent MODEL_NAME (rewrite_prompt (input_text demo_input) (selected_tone demo_input)) None,
       StError (ustr ''Error rewriting text with Gemini: 503 Service Unavailable'')],
      [], Inr ())"
    using rewrite_failure_no_synthesis_no_record [OF h, of "ustr ''key''" "[]"] r
    by (simp add: generate_audiobook_def demo_input_def ustr_def)
  from h g show ?thesis by simp
qed

subsection \<open>The speech synthesis function\<close>

text \<open>
  Claim C4. Called with a text that is \<open>None\<close> or empty, or with a voice identifier that
  is \<open>None\<close> or empty, \<open>convert_text_to_speech\<close> returns \<open>None\<close> and produces no event at
  all, so no HTTP request.
\<close>

theorem convert_text_to_speech_absent_input:
  assumes "\<not> truthy text_to_speak \<or> \<not> truthy voice_id"
  shows "convert_text_to_speech w api_key text_to_speak voice_id = ([], Inr None)"
  using assms by (simp add: convert_text_to_speech_def)

theorem convert_text_to_speech_absent_input_witness:
  "\<not> truthy (None :: pystr option) \<and> \<not> truthy (Some ([] :: pystr)) \<and>
   convert_text_to_speech demo_world (ustr ''key'') None (Some (ustr ''21m00'')) = ([], Inr None) \<and>
   convert_text_to_speech demo_world (ustr ''key'') (Some (ustr ''Hello'')) (Some []) = ([], Inr None)"
  using convert_text_to_speech_absent_input [of None "Some (ustr ''21m00'')" demo_world "ustr ''key''"]
        convert_text_to_speech_absent_input [of "Some (ustr ''Hello'')" "Some []" demo_world "ustr ''key''"]
  by simp

text \<open>
  Claim C5. When the synthesis request is answered with a status other than 200, the
  function shows an error made of the status code and the response text, returns \<open>None\<close>,
  and a generate action whose rewritten text and voice led to that request adds no
  record to the history and shows no success message.
\<close>

theorem synthesis_non_200:
  assumes "text_to_speak \<noteq> []" and "voice_id \<noteq> []"
    and "requests_post w (tts_request api_key text_to_speak voice_id) = Inr resp"
    and "status_code resp \<noteq> 200"
  shows "convert_text_to_speech w api_key (Some text_to_speak) (Some voice_id) =
           ([RequestsPost (tts_request api_key text_to_speak voice_id),
             StError (ustr ''ElevenLabs API Error: '' @ str_int (status_code resp) @ ustr '' - '' @
                      resp_text resp)],
            Inr None) \<and>
         (\<forall>inp history ev1.
            selected_voice_id inp = voice_id \<and>
            rewrite_text_with_llm w (input_text inp) (selected_tone inp) =
              (ev1, Inr (Some text_to_speak)) \<longrightarrow>
            fst (snd (generate_audiobook w api_key inp history)) = history \<and>
            \<not> list_ex is_success (fst (generate_audiobook w api_key inp history)))"
proof -
  have c: "convert_text_to_speech w api_key (Some text_to_speak) (Some voice_id) =
           ([RequestsPost (tts_request api_key text_to_speak voice_id),
             StError (ustr ''ElevenLabs API Error: '' @ str_int (status_code resp) @ ustr '' - '' @
                      resp_text resp)],
            Inr None)"
    using assms by (simp add: convert_text_to_speech_def Let_def)
  have ns: "\<not> list_ex is_success ev" if "rewrite_text_with_llm w t tn = (ev, r)" for t tn ev r
    using rewrite_events_no_success [of w t tn] that by simp
  show ?thesis
    using c assms(1) ns by (auto simp add: generate_audiobook_def)
qed

theorem synthesis_non_200_witness:
  "ustr ''A storm was coming.'' \<noteq> [] \<and> ustr ''21m00'' \<noteq> [] \<and>
   status_code \<lparr>status_code = 401, resp_text = ustr ''Unauthorized'', resp_content = []\<rparr> \<noteq> 200 \<and>
   convert_text_to_speech tts_denied_world (ustr ''key'') (Some (ustr ''A storm was coming.''))
       (Some (ustr ''21m00'')) =
     ([RequestsPost (tts_request (ustr ''key'') (ustr ''A storm was coming.'') (ustr ''21m00'')),
       StError (ustr ''ElevenLabs API Error: 401 - Unauthorized'')], Inr None) \<and>
   fst (snd (generate_audiobook tts_denied_world (ustr ''key'') demo_input [])) = []"
proof -
  have r: "rewrite_text_with_llm tts_denied_world (input_text demo_input) (selected_tone demo_input) =
        ([GenerateContent MODEL_NAME
            (rewrite_prompt (input_text demo_input) (selected_tone demo_input)) None],
         Inr (Some (ustr ''A storm was coming.'')))"
    by (simp add: rewrite_text_with_llm_def tts_denied_world_def story_reply_def demo_input_def
          Let_def py_strip_def py_isspace_def ustr_def)
  have p: "requests_post tts_denied_world
             (tts_request (ustr ''key'') (ustr ''A storm was coming.'') (ustr ''21m00'')) =
        Inr \<lparr>status_code = 401, resp_text = ustr ''Unauthorized'', resp_content = []\<rparr>"
    by (simp add: tts_denied_world_def)
  have v: "selected_voice_id demo_input = ustr ''21m00''" by (simp add: demo_input_def)
  have s: "str_int 401 = ustr ''401''" by (simp add: str_int_def str_nat.simps ustr_def)
  have n1: "ustr ''A storm was coming.'' \<noteq> []" and n2: "ustr ''21m00'' \<noteq> []"
    by (simp_all add: ustr_def)
  have n3: "status_code \<lparr>status_code = 401, resp_text = ustr ''Unauthorized'', resp_content = []\<rparr> \<noteq> 200"
    by simp
  from synthesis_non_200 [OF n1 n2 p n3] r v s n1 n2 show ?thesis
    by (simp add: ustr_def)
qed

text \<open>
  Claim C7. For a non-empty text and voice identifier the function makes exactly one
  POST request: to the fixed URL followed by the voice identifier, with the three
  headers, and with a JSON body of exactly the text, the model identifier and the two
  voice settings. When the answer has status 200 the function returns the bytes of the
  response body.
\<close>

theorem tts_request_shape:
  assumes "text_to_speak \<noteq> []" and "voice_id \<noteq> []"
  shows "let req = \<lparr>url = ustr ''https://api.elevenlabs.io/v1/text-to-speech/'' @ voice_id,
                    json = JObject
                      [(ustr ''text'', JString text_to_speak),
                       (ustr ''model_id'', JString (ustr ''eleven_multilingual_v2'')),
                       (ustr ''voice_settings'',
                          JObject [(ustr ''stability'', JNumber 0.5),
                                   (ustr ''similarity_boost'', JNumber 0.75)])],
                    headers =
                      [(ustr ''Accept'', ustr ''audio/mpeg''),
                       (ustr ''Content-Type'', ustr ''application/json''),
                       (ustr ''xi-api-key'', api_key)]\<rparr>;
             run = convert_text_to_speech w api_key (Some text_to_speak) (Some voice_id)
         in filter is_post (fst run) = [RequestsPost req] \<and>
            (\<forall>resp. requests_post w req = Inr resp \<and> status_code resp = 200 \<longrightarrow>
                    run = ([RequestsPost req], Inr (Some (resp_content resp))))"
  using assms
  by (auto simp add: convert_text_to_speech_def tts_request_def tts_url_def tts_data_def
        tts_headers_def Let_def split: sum.splits)

theorem tts_request_shape_witness:
  "ustr ''Hello'' \<noteq> [] \<and> ustr ''21m00'' \<noteq> [] \<and>
   convert_text_to_speech demo_world (ustr ''key'') (Some (ustr ''Hello'')) (Some (ustr ''21m00'')) =
     ([RequestsPost
         \<lparr>url = ustr ''https://api.elevenlabs.io/v1/text-to-speech/21m00'',
          json = JObject
            [(ustr ''text'', JString (ustr ''Hello'')),
             (ustr ''model_id'', JString (ustr ''eleven_multilingual_v2'')),
             (ustr ''voice_settings'',
                JObject [(ustr ''stability'', JNumber 0.5),
                         (ustr ''similarity_boost'', JNumber 0.75)])],
          headers =
            [(ustr ''Accept'', ustr ''audio/mpeg''),
             (ustr ''Content-Type'', ustr ''application/json''),
             (ustr ''xi-api-key'', ustr ''key'')]\<rparr>],
      Inr (Some [0x49, 0x44, 0x33]))"
proof -
  have n1: "ustr ''Hello'' \<noteq> []" and n2: "ustr ''21m00'' \<noteq> []"
    by (simp_all add: ustr_def)
  have p: "requests_post demo_world req =
             Inr \<lparr>status_code = 200, resp_text = [], resp_content = [0x49, 0x44, 0x33]\<rparr>" for req
    by (simp add: demo_world_def audio_reply_def)
  from tts_request_shape [OF n1 n2, where w = demo_world and api_key = "ustr ''key''"] p n1 n2
  show ?thesis
    by (simp add: Let_def ustr_def)
qed

text \<open>
  Claim C10. Provided the HTTP call raises only exceptions derived from \<open>Exception\<close>
  (every transport exception is one), \<open>convert_text_to_speech\<close> returns for every
  input and never raises: it returns bytes only when the response had status 200, and
  these bytes are the response body; otherwise it returns \<open>None\<close>. When the HTTP call
  raised, the exception's message is shown with \<open>st.error\<close>.
\<close>

theorem convert_text_to_speech_total:
  assumes "\<forall>req e. requests_post w req = Inl e \<longrightarrow> is_Exception e"
  shows "\<exists>ev r. convert_text_to_speech w api_key text_to_speak voice_id = (ev, Inr r) \<and>
           (\<forall>audio. r = Some audio \<longrightarrow>
              (\<exists>resp. requests_post w (tts_request api_key (the text_to_speak) (the voice_id)) =
                        Inr resp \<and>
                      status_code resp = 200 \<and> audio = resp_content resp)) \<and>
           (\<forall>e. truthy text_to_speak \<and> truthy voice_id \<and>
                requests_post w (tts_request api_key (the text_to_speak) (the voice_id)) = Inl e \<longrightarrow>
                r = None \<and>
                ev = [RequestsPost (tts_request api_key (the text_to_speak) (the voice_id)),
                      StError (ustr ''An error occurred while calling the ElevenLabs API: '' @
                               str_exn e)])"
  using assms
  by (auto simp add: convert_text_to_speech_def Let_def split: sum.splits)

theorem convert_text_to_speech_total_witness:
  "(\<forall>req. requests_post tts_unreachable_world req = Inl (Exception (ustr ''Connection refused''))) \<and>
   is_Exception (Exception (ustr ''Connection refused'')) \<and>
   convert_text_to_speech tts_unreachable_world (ustr ''key'') (Some (ustr ''Hello''))
       (Some (ustr ''21m00'')) =
     ([RequestsPost (tts_request (ustr ''key'') (ustr ''Hello'') (ustr ''21m00'')),
       StError (ustr ''An error occurred while calling the ElevenLabs API: '' @
                ustr ''Connection refused'')],
      Inr None)"
  using convert_text_to_speech_total
          [of tts_unreachable_world "ustr ''key''" "Some (ustr ''Hello'')" "Some (ustr ''21m00'')"]
  by (auto simp add: tts_unreachable_world_def ustr_def)

subsection \<open>The rewrite function\<close>

text \<open>
  Claim C8. For a non-empty text and a tone of the fixed set, \<open>rewrite_text_with_llm\<close>
  calls the model exactly once, with the prompt that is the fixed template with that
  tone and that text put in. When the model answers with a text, the result is that
  text without its leading and trailing whitespace.
\<close>

theorem rewrite_prompt_and_result:
  assumes "text_to_rewrite \<noteq> []" and "a_tone \<in> set TONES"
  shows "let prompt =
               ustr ''You are a master storyteller. Rewrite the following text in a '' @ [0x27] @
               a_tone @
               [0x27] @ ustr '' tone, preserving the original meaning but enhancing the style. Return only the rewritten text.'' @
               [0x0A] @ ustr ''    ORIGINAL TEXT: '' @ [0x22] @
               text_to_rewrite @
               [0x22] @ [0x0A] @ ustr ''    REWRITTEN TEXT:'';
             run = rewrite_text_with_llm w text_to_rewrite a_tone
         in filter is_model_call (fst run) = [GenerateContent MODEL_NAME prompt None] \<and>
            (\<forall>t. generate_content w MODEL_NAME prompt None = Inr (GenerateContentResponse (Inr t)) \<longrightarrow>
                 run = ([GenerateContent MODEL_NAME prompt None], Inr (Some (py_strip t))) \<and>
                 (\<exists>a b. t = a @ py_strip t @ b \<and> list_all py_isspace a \<and> list_all py_isspace b) \<and>
                 (py_strip t \<noteq> [] \<longrightarrow>
                    \<not> py_isspace (hd (py_strip t)) \<and> \<not> py_isspace (last (py_strip t))))"
proof -
  have s: "(\<exists>a b. t = a @ py_strip t @ b \<and> list_all py_isspace a \<and> list_all py_isspace b) \<and>
           (py_strip t \<noteq> [] \<longrightarrow>
              \<not> py_isspace (hd (py_strip t)) \<and> \<not> py_isspace (last (py_strip t)))" for t
    using py_strip_spec [of t] by blast
  show ?thesis
    using assms(1) s
    by (auto simp add: rewrite_text_with_llm_def rewrite_prompt_def Let_def split: sum.splits)
qed

theorem rewrite_prompt_and_result_witness:
  "ustr ''The sky grew dark.'' \<noteq> [] \<and> ustr ''Suspenseful'' \<in> set TONES \<and>
   rewrite_text_with_llm demo_world (ustr ''The sky grew dark.'') (ustr ''Suspenseful'') =
     ([GenerateContent MODEL_NAME
         (ustr ''You are a master storyteller. Rewrite the following text in a '' @ [0x27] @
          ustr ''Suspenseful'' @
          [0x27] @ ustr '' tone, preserving the original meaning but enhancing the style. Return only the rewritten text.'' @
          [0x0A] @ ustr ''    ORIGINAL TEXT: '' @ [0x22] @
          ustr ''The sky grew dark.'' @
          [0x22] @ [0x0A] @ ustr ''    REWRITTEN TEXT:'') None],
      Inr (Some (ustr ''A storm was coming.'')))"
proof -
  have n: "ustr ''The sky grew dark.'' \<noteq> []" by (simp add: ustr_def)
  have m: "ustr ''Suspenseful'' \<in> set TONES" by (simp add: TONES_def)
  have s: "py_strip (ustr ''  A storm was coming. '') = ustr ''A storm was coming.''"
    by (simp add: py_strip_def py_isspace_def ustr_def)
  have g: "generate_content demo_world m p c =
             Inr (GenerateContentResponse (Inr (ustr ''  A storm was coming. '')))" for m p c
    by (simp add: demo_world_def story_reply_def)
  from rewrite_prompt_and_result [OF n m, of demo_world] g s n m show ?thesis
    by (simp add: Let_def)
qed

subsection \<open>Empty input\<close>

text \<open>
  Claim C9. Pressing the generate button with empty input text shows the warning and
  nothing else: no model call, no synthesis request, history unchanged. The rewrite
  function called with the empty text returns the empty string without any event, so
  without calling the model.
\<close>

theorem empty_input_no_calls:
  "button_run w api_key (inp\<lparr>clicked := True, input_text := []\<rparr>) history =
     ([StWarning (ustr ''Please provide text to continue.'')], history, Inr ()) \<and>
   rewrite_text_with_llm w [] a_tone = ([], Inr (Some []))"
  by (simp add: button_run_def generate_audiobook_def rewrite_text_with_llm_def)

theorem empty_input_no_calls_witness:
  "button_run demo_world (ustr ''key'') (demo_input\<lparr>clicked := True, input_text := []\<rparr>) [] =
     ([StWarning (ustr ''Please provide text to continue.'')], [], Inr ()) \<and>
   rewrite_text_with_llm demo_world [] (ustr ''Poetic'') = ([], Inr (Some []))"
  using empty_input_no_calls [of demo_world "ustr ''key''" demo_input "[]" "ustr ''Poetic''"]
  by simp

subsection \<open>The history list\<close>

text \<open>
  Claim C6. The history list is most-recent-first. One run of the button either leaves
  the list as it is or, when the generation is successful, puts exactly one record, the
  one of that generation, at position 0 in front of the unchanged list. After a session
  the list is the records of the successful generations in reverse order of time,
  followed by the initial list; so with N > 0 successful generations from an empty
  history the list has N records and record 0 belongs to the N-th of them.
\<close>

theorem history_most_recent_first:
  "fst (snd (button_run w api_key inp history)) =
     (if successful api_key (w, inp) then narration_of api_key (w, inp) # history else history) \<and>
   session api_key history runs =
     rev (map (narration_of api_key) (filter (successful api_key) runs)) @ history \<and>
   (filter (successful api_key) runs \<noteq> [] \<longrightarrow>
      length (session api_key (init_history None) runs) = length (filter (successful api_key) runs) \<and>
      session api_key (init_history None) runs ! 0 =
        narration_of api_key (last (filter (successful api_key) runs)))"
proof -
  let ?gens = "filter (successful api_key) runs"
  have a: "rev (map (narration_of api_key) ?gens) ! 0 = narration_of api_key (last ?gens)"
    if "?gens \<noteq> []"
    using that by (simp add: rev_nth last_conv_nth)
  have s: "session api_key h runs = rev (map (narration_of api_key) ?gens) @ h" for h
    by (rule session_history)
  show ?thesis
    using button_run_history [of w api_key inp history] a
    by (simp add: s)
qed

theorem history_most_recent_first_witness:
  "filter (successful (ustr ''key'')) demo_runs \<noteq> [] \<and>
   session (ustr ''key'') (init_history None) demo_runs =
     [\<lparr>original_text = ustr ''Dawn broke.'', rewritten_text = ustr ''A storm was coming.'',
       tone = ustr ''Poetic'', voice_name = ustr ''Adam'', audio_data = [0x49, 0x44, 0x33]\<rparr>,
      \<lparr>original_text = ustr ''The sky grew dark.'', rewritten_text = ustr ''A storm was coming.'',
       tone = ustr ''Suspenseful'', voice_name = ustr ''Rachel'', audio_data = [0x49, 0x44, 0x33]\<rparr>]"
proof -
  have ne: "ustr ''A storm was coming.'' \<noteq> []" "ustr ''21m00'' \<noteq> []" "ustr ''pNInz6'' \<noteq> []"
     "ustr ''The sky grew dark.'' \<noteq> []" "ustr ''Dawn broke.'' \<noteq> []"
    by (simp_all add: ustr_def)
  have s1: "successful (ustr ''key'') (demo_world, demo_input)"
    by (simp add: successful_def generate_audiobook_def demo_input_def demo_rewrite demo_convert ne)
  have s3: "successful (ustr ''key'') (demo_world, dawn_input)"
    by (simp add: successful_def generate_audiobook_def dawn_input_def demo_rewrite demo_convert ne)
  have r2: "rewrite_text_with_llm llm_down_world (input_text demo_input) (selected_tone demo_input) =
     ([GenerateContent MODEL_NAME (rewrite_prompt (input_text demo_input) (selected_tone demo_input)) None,
       StError (ustr ''Error rewriting text with Gemini: 503 Service Unavailable'')],
      Inr None)"
    by (simp add: rewrite_text_with_llm_def llm_down_world_def demo_input_def Let_def ustr_def)
  have s2: "\<not> successful (ustr ''key'') (llm_down_world, demo_input)"
    by (simp add: successful_def generate_audiobook_def r2)
  have n1: "narration_of (ustr ''key'') (demo_world, demo_input) =
     \<lparr>original_text = ustr ''The sky grew dark.'', rewritten_text = ustr ''A storm was coming.'',
       tone = ustr ''Suspenseful'', voice_name = ustr ''Rachel'', audio_data = [0x49, 0x44, 0x33]\<rparr>"
    by (simp add: narration_of_def demo_input_def demo_rewrite demo_convert ne)
  have n3: "narration_of (ustr ''key'') (demo_world, dawn_input) =
     \<lparr>original_text = ustr ''Dawn broke.'', rewritten_text = ustr ''A storm was coming.'',
       tone = ustr ''Poetic'', voice_name = ustr ''Adam'', audio_data = [0x49, 0x44, 0x33]\<rparr>"
    by (simp add: narration_of_def dawn_input_def demo_rewrite demo_convert ne)
  have f: "filter (successful (ustr ''key'')) demo_runs = [(demo_world, demo_input), (demo_world, dawn_input)]"
    by (simp add: demo_runs_def s1 s2 s3)
  from history_most_recent_first [of demo_world "ustr ''key''" demo_input "[]" demo_runs] f n1 n3
  show ?thesis by simp
qed

subsection \<open>Failure of the model call\<close>

text \<open>
  Claim C2, as stated, fails for the story generator: when the model call raises,
  \<open>generate_fictional_story\<close> returns the failure message as its result, the value the
  UI shows in the story box.
\<close>

theorem story_failure_returned_as_text:
  "generate_content llm_down_world MODEL_NAME (full_prompt (ustr ''A dragon'')) (Some story_config) =
     Inl (Exception (ustr ''503 Service Unavailable'')) \<and>
   generate_fictional_story llm_down_world (ustr ''key'') (ustr ''A dragon'') =
     ([GenerateContent MODEL_NAME (full_prompt (ustr ''A dragon'')) (Some story_config)],
      Inr (ustr ''An unexpected error occurred with the Google AI API: 503 Service Unavailable''))"
  by (simp add: generate_fictional_story_def llm_down_world_def Let_def ustr_def)

text \<open>
  Claim C2, amended. When the model call, or reading the text of its response, raises an
  exception derived from \<open>Exception\<close>: \<open>rewrite_text_with_llm\<close> (main.py), after its one
  model call, shows the exception's message with \<open>st.error\<close> and returns \<open>None\<close>;
  \<open>generate_fictional_story\<close> (title.py), after its one model call, returns a diagnostic
  message as its result string and shows nothing else.
\<close>

theorem model_failure_handling:
  "(text_to_rewrite \<noteq> [] \<and>
    model_failure w MODEL_NAME (rewrite_prompt text_to_rewrite a_tone) None = Some e \<and>
    is_Exception e \<longrightarrow>
      rewrite_text_with_llm w text_to_rewrite a_tone =
        ([GenerateContent MODEL_NAME (rewrite_prompt text_to_rewrite a_tone) None,
          StError (ustr ''Error rewriting text with Gemini: '' @ str_exn e)],
         Inr None)) \<and>
   (api_key \<noteq> [] \<and>
    model_failure w MODEL_NAME (full_prompt prompt_text) (Some story_config) = Some e' \<and>
    is_Exception e' \<longrightarrow>
      generate_fictional_story w api_key prompt_text =
        ([GenerateContent MODEL_NAME (full_prompt prompt_text) (Some story_config)],
         Inr (if (\<exists>m. e' = AttributeError m) \<and>
                 (\<exists>r. generate_content w MODEL_NAME (full_prompt prompt_text) (Some story_config) = Inr r)
              then invalid_story_message
              else ustr ''An unexpected error occurred with the Google AI API: '' @ str_exn e')))"
  by (auto simp add: model_failure_def rewrite_text_with_llm_def generate_fictional_story_def Let_def
        split: sum.splits exn.splits)

theorem model_failure_handling_witness:
  "ustr ''The sky grew dark.'' \<noteq> [] \<and>
   model_failure llm_down_world MODEL_NAME (rewrite_prompt (ustr ''The sky grew dark.'') (ustr ''Poetic'')) None =
     Some (Exception (ustr ''503 Service Unavailable'')) \<and>
   is_Exception (Exception (ustr ''503 Service Unavailable'')) \<and>
   rewrite_text_with_llm llm_down_world (ustr ''The sky grew dark.'') (ustr ''Poetic'') =
     ([GenerateContent MODEL_NAME (rewrite_prompt (ustr ''The sky grew dark.'') (ustr ''Poetic'')) None,
       StError (ustr ''Error rewriting text with Gemini: '' @ ustr ''503 Service Unavailable'')],
      Inr None) \<and>
   ustr ''key'' \<noteq> [] \<and>
   model_failure llm_down_world MODEL_NAME (full_prompt (ustr ''A dragon'')) (Some story_config) =
     Some (Exception (ustr ''503 Service Unavailable'')) \<and>
   generate_fictional_story llm_down_world (ustr ''key'') (ustr ''A dragon'') =
     ([GenerateContent MODEL_NAME (full_prompt (ustr ''A dragon'')) (Some story_config)],
      Inr (ustr ''An unexpected error occurred with the Google AI API: '' @ ustr ''503 Service Unavailable''))"
proof -
  have m: "model_failure llm_down_world mo p c = Some (Exception (ustr ''503 Service Unavailable''))"
    for mo p c
    by (simp add: model_failure_def llm_down_world_def)
  have n: "ustr ''The sky grew dark.'' \<noteq> []" "ustr ''key'' \<noteq> []" by (simp_all add: ustr_def)
  from model_failure_handling [of "ustr ''The sky grew dark.''" llm_down_world "ustr ''Poetic''"
      "Exception (ustr ''503 Service Unavailable'')" "ustr ''key''" "ustr ''A dragon''"
      "Exception (ustr ''503 Service Unavailable'')"] m n
  show ?thesis by simp
qed

subsection \<open>Missing credentials\<close>

text \<open>
  Claim C3, as stated, fails for the story generator: with an empty key title.py
  launches its UI, and the missing key is reported only when a story is requested, as
  the result of the request.
\<close>

theorem story_generator_starts_without_key:
  "title_startup [] (Inr ()) = ([AppLaunch], Inr ()) \<and>
   generate_fictional_story demo_world [] (ustr ''A dragon'') = ([], Inr missing_key_message)"
  by (simp add: title_startup_def generate_fictional_story_def)

text \<open>
  Claim C3, amended. In the audiobook tool (main.py), when either credential is unset
  or empty at the start of the script, the script shows a diagnostic that names the
  missing key and stops there; nothing below the configuration runs. The story
  generator (title.py) launches whatever its key is, and with an empty key a request
  returns the missing-key message without calling the model.
\<close>

theorem startup_missing_credential:
  "(\<not> truthy google_api_key \<or> \<not> truthy elevenlabs_api_key \<longrightarrow>
      main_script google_api_key elevenlabs_api_key configure rest =
        ([StError (if \<not> truthy google_api_key
                   then ustr ''Google AI API Key is missing. Please check your .env file.''
                   else ustr ''ElevenLabs API Key is missing. Please check your .env file.'')],
         Inl st_stop)) \<and>
   ((\<forall>e. configure' = Inl e \<longrightarrow> is_Exception e) \<longrightarrow>
      snd (title_startup GOOGLE_API_KEY configure') = Inr () \<and>
      AppLaunch \<in> set (fst (title_startup GOOGLE_API_KEY configure'))) \<and>
   generate_fictional_story w [] prompt_text = ([], Inr missing_key_message)"
  by (auto simp add: main_script_def main_startup_def configure_apis_def st_stop_def
        title_startup_def generate_fictional_story_def split: sum.splits)

theorem startup_missing_credential_witness:
  "\<not> truthy (None :: pystr option) \<and>
   main_script (Some (ustr ''g-key'')) None (Inr ()) (\<lambda>key. ([AppLaunch], Inr key)) =
     ([StError (ustr ''ElevenLabs API Key is missing. Please check your .env file.'')],
      Inl st_stop) \<and>
   main_script None (Some (ustr ''e-key'')) (Inr ()) (\<lambda>key. ([AppLaunch], Inr key)) =
     ([StError (ustr ''Google AI API Key is missing. Please check your .env file.'')],
      Inl st_stop) \<and>
   title_startup [] (Inr ()) = ([AppLaunch], Inr ()) \<and>
   generate_fictional_story demo_world [] [] = ([], Inr missing_key_message)"
  using startup_missing_credential
          [of "Some (ustr ''g-key'')" None "Inr ()" "\<lambda>key. ([AppLaunch], Inr key)" "Inr ()" "[]"
              demo_world "[]"]
        startup_missing_credential
          [of None "Some (ustr ''e-key'')" "Inr ()" "\<lambda>key. ([AppLaunch], Inr key)" "Inr ()" "[]"
              demo_world "[]"]
  by (simp add: title_startup_def ustr_def)

end
